theory Spec2Isabelle
  imports Main
begin

section \<open>Personal Expense Tracker (firstproject.py)\<close>

text \<open>
  The program is one Python script: a generator of simulated expense rows, three functions on
  an SQLite file (\<^verbatim>\<open>init_db\<close>, \<^verbatim>\<open>load_data_to_db\<close>, \<^verbatim>\<open>query_data\<close>), a dictionary of SQL
  texts, and a Streamlit page that runs the whole script once per user interaction.

  The script's own functions are translated line by line. What they call in libraries
  (pandas, sqlite3, Faker, \<^verbatim>\<open>random\<close>, \<^verbatim>\<open>calendar\<close>) is interpreted as far as the script uses it;
  the rest of a library's behaviour is a parameter of the model (record \<open>libs\<close> below), so that
  no theorem depends on a guess about it. Exceptions are values of type \<open>error\<close>, and a function
  that can raise returns \<open>error + 'a\<close> with \<open>Inl\<close> for the exception.
\<close>

subsection \<open>Exceptions\<close>

text \<open>\<open>DatabaseError\<close> is pandas' exception of that name; its argument is the message of
  the sqlite3 error it wraps (pandas puts the statement text in front of it).\<close>

datatype error =
    ValueError string
  | IllegalMonthError int
  | IndexError
  | KeyError string
  | DatabaseError string
  | OtherError string

subsection \<open>Decimal formatting\<close>

definition digit_char :: "nat \<Rightarrow> char" where
  "digit_char n = ''0123456789'' ! n"

text \<open>\<^verbatim>\<open>str(n)\<close> for a non-negative integer.\<close>

function str_nat :: "nat \<Rightarrow> string" where
  "str_nat n = (if n < 10 then [digit_char n] else str_nat (n div 10) @ [digit_char (n mod 10)])"
  by pat_completeness auto
termination
  by (relation "measure id") auto

declare str_nat.simps [simp del]

text \<open>\<^verbatim>\<open>str(i)\<close>, and the format specification \<^verbatim>\<open>02d\<close> of the f-strings: the sign counts
  towards the minimum width 2, and the padding zeros follow the sign.\<close>

definition str_int :: "int \<Rightarrow> string" where
  "str_int i = (if i < 0 then CHR ''-'' # str_nat (nat (- i)) else str_nat (nat i))"

definition format_02d :: "int \<Rightarrow> string" where
  "format_02d i =
     (if i < 0 then CHR ''-'' # str_nat (nat (- i))
      else if i < 10 then CHR ''0'' # str_nat (nat i)
      else str_nat (nat i))"

subsection \<open>Dates and the calendar module\<close>

record date =
  date_year :: int
  date_month :: int
  date_day :: int

text \<open>The order of \<^verbatim>\<open>datetime.date\<close>: by year, then month, then day.\<close>

definition date_le :: "date \<Rightarrow> date \<Rightarrow> bool" where
  "date_le a b =
     (date_year a < date_year b \<or>
      (date_year a = date_year b \<and>
        (date_month a < date_month b \<or>
         (date_month a = date_month b \<and> date_day a \<le> date_day b))))"

definition isleap :: "int \<Rightarrow> bool" where
  "isleap y = (y mod 4 = 0 \<and> (y mod 100 \<noteq> 0 \<or> y mod 400 = 0))"

definition mdays :: "int list" where
  "mdays = [0, 31, 28, 31, 30, 31, 30, 31, 31, 30, 31, 30, 31]"

definition days_before_year :: "int \<Rightarrow> int" where
  "days_before_year y = (y - 1) * 365 + (y - 1) div 4 - (y - 1) div 100 + (y - 1) div 400"

definition days_before_month :: "int \<Rightarrow> int \<Rightarrow> int" where
  "days_before_month y m =
     [- 1, 0, 31, 59, 90, 120, 151, 181, 212, 243, 273, 304, 334] ! nat m
       + (if m > 2 \<and> isleap y then 1 else 0)"

text \<open>\<^verbatim>\<open>calendar.weekday\<close>, called by \<^verbatim>\<open>monthrange\<close> with a month already checked to be in
  1..12 and day 1; Monday is 0.\<close>

definition weekday :: "int \<Rightarrow> int \<Rightarrow> int \<Rightarrow> int" where
  "weekday y m d =
     (let y' = (if 1 \<le> y \<and> y \<le> 9999 then y else 2000 + y mod 400)
      in (days_before_year y' + days_before_month y' m + d + 6) mod 7)"

text \<open>\<^verbatim>\<open>calendar.monthrange(year, month)\<close>: raises for a month outside 1..12, otherwise
  returns the weekday of the first day and the number of days.\<close>

definition monthrange :: "int \<Rightarrow> int \<Rightarrow> error + (int \<times> int)" where
  "monthrange y m =
     (if \<not> (1 \<le> m \<and> m \<le> 12) then Inl (IllegalMonthError m)
      else Inr (weekday y m 1, mdays ! nat m + (if m = 2 \<and> isleap y then 1 else 0)))"

text \<open>\<^verbatim>\<open>calendar.month_name\<close> is a sequence of 13 names whose entry 0 is empty. Indexing
  is Python's: a negative index counts from the end, an index out of range raises.\<close>

definition month_names :: "string list" where
  "month_names =
     ['''', ''January'', ''February'', ''March'', ''April'', ''May'', ''June'', ''July'',
      ''August'', ''September'', ''October'', ''November'', ''December'']"

definition month_name :: "int \<Rightarrow> error + string" where
  "month_name i =
     (if 0 \<le> i \<and> i < 13 then Inr (month_names ! nat i)
      else if - 13 \<le> i \<and> i < 0 then Inr (month_names ! nat (13 + i))
      else Inl IndexError)"

subsection \<open>Expense records and the random draws\<close>

text \<open>
  \<open>Amount_Paid\<close> and \<open>Cashback\<close> are Python floats. Floating-point arithmetic is not
  interpreted: the type of these two fields is the parameter \<open>'f\<close>.
\<close>

record 'f expense =
  Date :: date
  Category :: string
  Payment_Mode :: string
  Description :: string
  Amount_Paid :: 'f
  Cashback :: 'f
  Month :: string

text \<open>
  The outcomes of the random calls of one loop iteration of \<^verbatim>\<open>generate_data\<close>: the choice
  inside \<^verbatim>\<open>fake.date_between_dates\<close>, the numbers behind the three \<^verbatim>\<open>random.choice\<close>
  calls, and the values of \<^verbatim>\<open>round(random.uniform(10.0, 500.0), 2)\<close> and
  \<^verbatim>\<open>round(random.uniform(0.0, 20.0), 2)\<close>. A random source gives the draw of each iteration.
\<close>

record 'f draw =
  r_date :: nat
  r_category :: nat
  r_payment_mode :: nat
  r_description :: nat
  r_amount_paid :: 'f
  r_cashback :: 'f

type_synonym 'f random_source = "nat \<Rightarrow> 'f draw"

subsection \<open>Data frames, the store, and what is done to connections\<close>

text \<open>
  A data frame is either a list of expense rows (the frame \<^verbatim>\<open>generate_data\<close> builds, and the
  result of \<^verbatim>\<open>SELECT * FROM t\<close>), or the result SQLite computes for another statement text from
  the rows of the table it reads; that computation (sums and averages of floats, grouping,
  ordering) is not interpreted.
\<close>

datatype 'f frame = Rows "'f expense list" | Computed string "'f expense list"

text \<open>
  The content of \<^verbatim>\<open>expenses.db\<close>: its tables in the order of their creation, each with its
  name as written when it was created and its rows. The store holds tables only, all with
  the seven columns of an expense record.
\<close>

type_synonym 'f database = "(string \<times> 'f expense list) list"

text \<open>The calls made on sqlite3 connections, in the order in which they happen.\<close>

datatype io_event =
    Connect
  | Execute string
  | Commit
  | Read_sql_query string
  | To_sql string nat
  | Close

record 'f world =
  store :: "'f database"
  trace :: "io_event list"

subsection \<open>Library behaviour taken as a parameter\<close>

text \<open>
  \<^item> \<open>parse_other\<close>: what \<^verbatim>\<open>pd.Timestamp\<close> does with a text that is not a valid date written
    \<^verbatim>\<open>YYYY-MM-DD\<close> (pandas then tries further formats);
  \<^item> \<open>date_between_dates\<close>: Faker's method of that name; its third argument stands for the
    random choice it makes;
  \<^item> \<open>sqlite_other\<close>: SQLite and pandas on a statement text that the program itself never
    issues (only the free-text query box can supply one): either the message of the error
    with which SQLite refuses to compile the text, or what running the compiled statement
    does to the store and returns or raises.
\<close>

record 'f libs =
  parse_other :: "string \<Rightarrow> error + date"
  date_between_dates :: "date \<Rightarrow> date \<Rightarrow> nat \<Rightarrow> error + date"
  sqlite_other :: "string \<Rightarrow> string + ('f database \<Rightarrow> (error + 'f frame) \<times> 'f database)"

subsection \<open>pd.Timestamp and random.choice\<close>

definition is_digit :: "char \<Rightarrow> bool" where
  "is_digit c = (c \<in> set ''0123456789'')"

definition digit_val :: "char \<Rightarrow> int" where
  "digit_val c = int (length (takeWhile (\<lambda>x. x \<noteq> c) ''0123456789''))"

fun digits_val :: "int \<Rightarrow> string \<Rightarrow> int" where
  "digits_val acc [] = acc"
| "digits_val acc (c # cs) = digits_val (acc * 10 + digit_val c) cs"

text \<open>The fields of a text of the shape \<^verbatim>\<open>dddd-dd-dd\<close>.\<close>

definition iso_fields :: "string \<Rightarrow> (int \<times> int \<times> int) option" where
  "iso_fields s =
     (if length s = 10 \<and> s ! 4 = CHR ''-'' \<and> s ! 7 = CHR ''-''
         \<and> list_all is_digit (take 4 s) \<and> list_all is_digit (take 2 (drop 5 s))
         \<and> list_all is_digit (drop 8 s)
      then Some (digits_val 0 (take 4 s), digits_val 0 (take 2 (drop 5 s)), digits_val 0 (drop 8 s))
      else None)"

text \<open>A date that exists, in a year that lies wholly inside the range of \<^verbatim>\<open>pd.Timestamp\<close>.\<close>

definition valid_date :: "int \<Rightarrow> int \<Rightarrow> int \<Rightarrow> bool" where
  "valid_date y m d =
     (1678 \<le> y \<and> y \<le> 2261 \<and> 1 \<le> m \<and> m \<le> 12 \<and> 1 \<le> d
      \<and> d \<le> mdays ! nat m + (if m = 2 \<and> isleap y then 1 else 0))"

text \<open>\<^verbatim>\<open>pd.Timestamp(text)\<close>, read as the date it denotes (midnight of that day).\<close>

definition Timestamp :: "'f libs \<Rightarrow> string \<Rightarrow> error + date" where
  "Timestamp L s =
     (case iso_fields s of
        Some (y, m, d) \<Rightarrow>
          if valid_date y m d then Inr \<lparr>date_year = y, date_month = m, date_day = d\<rparr>
          else parse_other L s
      | None \<Rightarrow> parse_other L s)"

text \<open>\<^verbatim>\<open>random.choice(seq)\<close>: an element at a random index below the length; raises on an
  empty sequence.\<close>

definition choice :: "'a list \<Rightarrow> nat \<Rightarrow> error + 'a" where
  "choice seq r = (if seq = [] then Inl IndexError else Inr (seq ! (r mod length seq)))"

subsection \<open>generate\_data\<close>

definition categories :: "string list" where
  "categories =
     [''Food'', ''Transportation'', ''Bills'', ''Groceries'', ''Entertainment'',
      ''Investments'', ''School FEES'', ''College FEES'', ''Fruits & Vegetables'',
      ''Stationery'', ''Subscriptions'', ''Sports & Fitness'', ''Home Essentials'']"

definition payment_modes :: "string list" where
  "payment_modes =
     [''Cash'', ''Online'', ''Credit Card'', ''Debit Card'', ''Wallet'', ''Net Banking'', ''UPI'']"

definition descriptions :: "string list" where
  "descriptions =
     [''Investment in mutual funds'', ''Paid school fees'', ''Bought groceries'',
      ''Dining out with family'', ''Purchased new stationery'',
      ''Monthly subscription fee'', ''Gym membership renewal'',
      ''Home improvement essentials'']"

text \<open>One iteration of the loop (lines 22 to 39): the two timestamps and the month's length
  are computed anew in every iteration, in the order in which Python evaluates them.\<close>

definition generate_row :: "'f libs \<Rightarrow> 'f draw \<Rightarrow> int \<Rightarrow> error + 'f expense" where
  "generate_row L d month =
     (case Timestamp L (''2024-'' @ format_02d month @ ''-01'') of
        Inl e \<Rightarrow> Inl e
      | Inr date_start \<Rightarrow>
     (case monthrange 2024 month of
        Inl e \<Rightarrow> Inl e
      | Inr (day1, ndays) \<Rightarrow>
     (case Timestamp L (''2024-'' @ format_02d month @ ''-'' @ str_int ndays) of
        Inl e \<Rightarrow> Inl e
      | Inr date_end \<Rightarrow>
     (case date_between_dates L date_start date_end (r_date d) of
        Inl e \<Rightarrow> Inl e
      | Inr dt \<Rightarrow>
     (case choice categories (r_category d) of
        Inl e \<Rightarrow> Inl e
      | Inr cat \<Rightarrow>
     (case choice payment_modes (r_payment_mode d) of
        Inl e \<Rightarrow> Inl e
      | Inr pm \<Rightarrow>
     (case choice descriptions (r_description d) of
        Inl e \<Rightarrow> Inl e
      | Inr ds \<Rightarrow>
     (case month_name month of
        Inl e \<Rightarrow> Inl e
      | Inr mn \<Rightarrow>
          Inr \<lparr>Date = dt, Category = cat, Payment_Mode = pm, Description = ds,
               Amount_Paid = r_amount_paid d, Cashback = r_cashback d, Month = mn\<rparr>))))))))"

text \<open>The loop \<^verbatim>\<open>for _ in range(100)\<close>: \<open>k\<close> iterations remain, \<open>i\<close> have run, \<open>data\<close> is
  the list built so far. An exception in an iteration ends the function.\<close>

fun generate_loop ::
  "'f libs \<Rightarrow> 'f random_source \<Rightarrow> int \<Rightarrow> nat \<Rightarrow> nat \<Rightarrow> 'f expense list \<Rightarrow> error + 'f expense list"
where
  "generate_loop L src month 0 i data = Inr data"
| "generate_loop L src month (Suc k) i data =
     (case generate_row L (src i) month of
        Inl e \<Rightarrow> Inl e
      | Inr row \<Rightarrow> generate_loop L src month k (Suc i) (data @ [row]))"

definition generate_data :: "'f libs \<Rightarrow> 'f random_source \<Rightarrow> int \<Rightarrow> error + 'f expense list" where
  "generate_data L src month = generate_loop L src month 100 0 []"

subsection \<open>The predefined queries\<close>

text \<open>The dictionary \<^verbatim>\<open>SQL_QUERIES\<close>, its keys in the order of the source.\<close>

definition SQL_QUERIES :: "(string \<times> string) list" where
  "SQL_QUERIES =
     [(''Total Amount Spent per Category'',
       ''SELECT Category, SUM(Amount_Paid) AS Total_Spent FROM expenses GROUP BY Category''),
      (''Monthly Spending Breakdown'',
       ''SELECT Month, SUM(Amount_Paid) AS Total_Spent FROM expenses GROUP BY Month''),
      (''Top 5 Highest Expenses'',
       ''SELECT * FROM expenses ORDER BY Amount_Paid DESC LIMIT 5''),
      (''Cash vs Online Transactions'',
       ''SELECT Payment_Mode, COUNT(*) AS Transaction_Count, SUM(Amount_Paid) AS Total_Spent FROM expenses GROUP BY Payment_Mode''),
      (''Average Cashback by Category'',
       ''SELECT Category, AVG(Cashback) AS Avg_Cashback FROM expenses GROUP BY Category''),
      (''Spending Trends Over Time'',
       ''SELECT Date, SUM(Amount_Paid) AS Daily_Spent FROM expenses GROUP BY Date ORDER BY Date''),
      (''Top Spending Days'',
       ''SELECT Date, SUM(Amount_Paid) AS Total_Spent FROM expenses GROUP BY Date ORDER BY Total_Spent DESC LIMIT 10''),
      (''Average Spending by Month'',
       ''SELECT Month, AVG(Amount_Paid) AS Avg_Spending FROM expenses GROUP BY Month''),
      (''Category Breakdown for January'',
       ''SELECT Category, SUM(Amount_Paid) AS Total_Spent FROM January GROUP BY Category''),
      (''Highest Cashback Transactions'',
       ''SELECT * FROM expenses ORDER BY Cashback DESC LIMIT 5''),
      (''Transactions Above 300'',
       ''SELECT * FROM expenses WHERE Amount_Paid > 300 ORDER BY Amount_Paid DESC''),
      (''Most Frequently Used Payment Mode'',
       ''SELECT Payment_Mode, COUNT(*) AS Usage_Count FROM expenses GROUP BY Payment_Mode ORDER BY Usage_Count DESC LIMIT 1''),
      (''Least Spent Categories'',
       ''SELECT Category, SUM(Amount_Paid) AS Total_Spent FROM expenses GROUP BY Category ORDER BY Total_Spent ASC LIMIT 5''),
      (''Daily Average Spending'',
       ''SELECT Date, AVG(Amount_Paid) AS Avg_Spending FROM expenses GROUP BY Date ORDER BY Date''),
      (''Weekly Spending Trends'',
       ''SELECT strftime('%W', Date) AS Week_Number, SUM(Amount_Paid) AS Weekly_Spent FROM expenses GROUP BY Week_Number''),
      (''Category-Wise Transaction Count'',
       ''SELECT Category, COUNT(*) AS Transaction_Count FROM expenses GROUP BY Category ORDER BY Transaction_Count DESC'')]"

text \<open>The query of the mode "Visualize Insights" (line 123) and the query that the mode
  "View Data" builds from a month's name (line 117).\<close>

definition visualize_query :: string where
  "visualize_query =
     ''SELECT Category, SUM(Amount_Paid) as Total_Spent FROM expenses GROUP BY Category''"

definition view_query :: "string \<Rightarrow> string" where
  "view_query name = ''SELECT * FROM '' @ name"

subsection \<open>SQLite, as far as the program uses it\<close>

text \<open>SQLite compares table names without regard to the case of ASCII letters.\<close>

definition to_upper :: "char \<Rightarrow> char" where
  "to_upper c =
     (case map_of (zip ''abcdefghijklmnopqrstuvwxyz'' ''ABCDEFGHIJKLMNOPQRSTUVWXYZ'') c of
        Some u \<Rightarrow> u
      | None \<Rightarrow> c)"

definition fold_name :: "string \<Rightarrow> string" where
  "fold_name n = map to_upper n"

text \<open>The table that a name in a statement resolves to.\<close>

definition sqlite_find :: "'f database \<Rightarrow> string \<Rightarrow> (string \<times> 'f expense list) option" where
  "sqlite_find dbs n = find (\<lambda>(k, t). fold_name k = fold_name n) dbs"

text \<open>\<^verbatim>\<open>CREATE TABLE IF NOT EXISTS n (...)\<close>: nothing happens when a table of that name
  exists; otherwise an empty table is added.\<close>

definition create_table_if_not_exists :: "string \<Rightarrow> 'f database \<Rightarrow> 'f database" where
  "create_table_if_not_exists n dbs =
     (case sqlite_find dbs n of Some found \<Rightarrow> dbs | None \<Rightarrow> dbs @ [(n, [])])"

text \<open>\<^verbatim>\<open>INSERT INTO n ... VALUES ...\<close> for a list of rows: they are added after the rows
  of the table that \<open>n\<close> resolves to.\<close>

fun insert_rows :: "string \<Rightarrow> 'f expense list \<Rightarrow> 'f database \<Rightarrow> 'f database" where
  "insert_rows n rows [] = []"
| "insert_rows n rows ((k, t) # rest) =
     (if fold_name k = fold_name n then (k, t @ rows) # rest
      else (k, t) # insert_rows n rows rest)"

text \<open>The words of a statement text, separated by spaces.\<close>

fun words_from :: "string \<Rightarrow> string \<Rightarrow> string list" where
  "words_from cur [] = (if cur = [] then [] else [cur])"
| "words_from cur (c # cs) =
     (if c = CHR '' '' then (if cur = [] then words_from [] cs else cur # words_from [] cs)
      else words_from (cur @ [c]) cs)"

definition sql_words :: "string \<Rightarrow> string list" where
  "sql_words q = words_from [] q"

text \<open>The table a statement reads: the word after \<^verbatim>\<open>FROM\<close>.\<close>

definition from_table :: "string \<Rightarrow> string option" where
  "from_table q =
     (case dropWhile (\<lambda>w. w \<noteq> ''FROM'') (sql_words q) of
        kw # t # rest \<Rightarrow> Some t
      | _ \<Rightarrow> None)"

text \<open>
  The statement texts that the program itself issues through \<^verbatim>\<open>query_data\<close>: the values of
  \<^verbatim>\<open>SQL_QUERIES\<close>, the query of "Visualize Insights" and the twelve queries of "View Data".
  Each is a well-formed \<^verbatim>\<open>SELECT\<close> over columns of an expense table, so it fails exactly when
  its table is missing. These texts are interpreted; every other text is left to
  \<open>sqlite_other\<close>.
\<close>

definition interpreted :: "string \<Rightarrow> bool" where
  "interpreted q =
     (q \<in> set (map snd SQL_QUERIES) \<or> q = visualize_query
      \<or> q \<in> set (map view_query (tl month_names)))"

definition run_select ::
  "string \<Rightarrow> string \<Rightarrow> 'f database \<Rightarrow> (error + 'f frame) \<times> 'f database"
where
  "run_select q t dbs =
     (case sqlite_find dbs t of
        None \<Rightarrow> (Inl (DatabaseError (''no such table: '' @ t)), dbs)
      | Some (k, rows) \<Rightarrow>
          (Inr (if sql_words q = [''SELECT'', ''*'', ''FROM'', t] then Rows rows
                else Computed q rows), dbs))"

text \<open>Compiling a statement text: a message when SQLite refuses the text, otherwise what
  running the statement does.\<close>

definition sqlite_prepare ::
  "'f libs \<Rightarrow> string \<Rightarrow> string + ('f database \<Rightarrow> (error + 'f frame) \<times> 'f database)"
where
  "sqlite_prepare L q =
     (if interpreted q then
        (case from_table q of Some t \<Rightarrow> Inr (run_select q t) | None \<Rightarrow> sqlite_other L q)
      else sqlite_other L q)"

subsection \<open>sqlite3 connections and pandas\<close>

definition connect :: "'f world \<Rightarrow> 'f world" where
  "connect w = w\<lparr>trace := trace w @ [Connect]\<rparr>"

definition commit :: "'f world \<Rightarrow> 'f world" where
  "commit w = w\<lparr>trace := trace w @ [Commit]\<rparr>"

definition close :: "'f world \<Rightarrow> 'f world" where
  "close w = w\<lparr>trace := trace w @ [Close]\<rparr>"

text \<open>\<^verbatim>\<open>cursor.execute\<close> of the statement that \<^verbatim>\<open>init_db\<close> formats for one month.\<close>

definition execute_create :: "string \<Rightarrow> 'f world \<Rightarrow> 'f world" where
  "execute_create name w =
     w\<lparr>store := create_table_if_not_exists name (store w),
       trace := trace w @ [Execute (''CREATE TABLE IF NOT EXISTS '' @ name)]\<rparr>"

text \<open>\<^verbatim>\<open>pd.read_sql_query(query, conn)\<close>: an error of SQLite reaches the caller as pandas'
  \<^verbatim>\<open>DatabaseError\<close>.\<close>

definition read_sql_query :: "'f libs \<Rightarrow> string \<Rightarrow> 'f world \<Rightarrow> (error + 'f frame) \<times> 'f world" where
  "read_sql_query L q w =
     (let w1 = w\<lparr>trace := trace w @ [Read_sql_query q]\<rparr>
      in case sqlite_prepare L q of
           Inl msg \<Rightarrow> (Inl (DatabaseError msg), w1)
         | Inr run \<Rightarrow> (case run (store w1) of (r, dbs) \<Rightarrow> (r, w1\<lparr>store := dbs\<rparr>)))"

text \<open>pandas looks a table up by its exact name (a row of \<^verbatim>\<open>sqlite_master\<close>).\<close>

definition has_table :: "'f database \<Rightarrow> string \<Rightarrow> bool" where
  "has_table dbs n = (n \<in> set (map fst dbs))"

text \<open>
  \<^verbatim>\<open>data.to_sql(name, conn, if_exists='append', index=False)\<close>: when pandas finds the table
  it inserts the rows; otherwise it first creates the table from the frame's columns. SQLite
  refuses the creation when the name resolves to a table written in another case, and when
  the frame has no columns, as the frame of an empty list has.
\<close>

definition to_sql :: "'f expense list \<Rightarrow> string \<Rightarrow> 'f world \<Rightarrow> error option \<times> 'f world" where
  "to_sql data name w =
     (let w1 = w\<lparr>trace := trace w @ [To_sql name (length data)]\<rparr>
      in if has_table (store w1) name then
           (None, w1\<lparr>store := insert_rows name data (store w1)\<rparr>)
         else if sqlite_find (store w1) name \<noteq> None then
           (Some (DatabaseError (''table '' @ [CHR 0x22] @ name @ [CHR 0x22] @ '' already exists'')), w1)
         else if data = [] then
           (Some (DatabaseError (''near '' @ [CHR 0x22] @ '')'' @ [CHR 0x22] @ '': syntax error'')), w1)
         else (None, w1\<lparr>store := store w1 @ [(name, data)]\<rparr>))"

subsection \<open>init\_db, load\_data\_to\_db, query\_data\<close>

text \<open>The loop of \<^verbatim>\<open>init_db\<close> over \<^verbatim>\<open>range(1, 13)\<close>.\<close>

fun init_tables :: "int list \<Rightarrow> 'f world \<Rightarrow> error option \<times> 'f world" where
  "init_tables [] w = (None, w)"
| "init_tables (month # rest) w =
     (case month_name month of
        Inl e \<Rightarrow> (Some e, w)
      | Inr name \<Rightarrow> init_tables rest (execute_create name w))"

definition init_db :: "'f world \<Rightarrow> error option \<times> 'f world" where
  "init_db w =
     (case init_tables [1, 2, 3, 4, 5, 6, 7, 8, 9, 10, 11, 12] (connect w) of
        (Some e, w1) \<Rightarrow> (Some e, w1)
      | (None, w1) \<Rightarrow> (None, close (commit w1)))"

text \<open>None of the three functions has a \<^verbatim>\<open>try\<close>: when a call raises, the lines after it
  do not run.\<close>

definition load_data_to_db :: "'f expense list \<Rightarrow> int \<Rightarrow> 'f world \<Rightarrow> error option \<times> 'f world" where
  "load_data_to_db data month w =
     (let w1 = connect w
      in case month_name month of
           Inl e \<Rightarrow> (Some e, w1)
         | Inr name \<Rightarrow>
             (case to_sql data name w1 of
                (Some e, w2) \<Rightarrow> (Some e, w2)
              | (None, w2) \<Rightarrow> (None, close w2)))"

definition query_data :: "'f libs \<Rightarrow> string \<Rightarrow> 'f world \<Rightarrow> (error + 'f frame) \<times> 'f world" where
  "query_data L query w =
     (case read_sql_query L query (connect w) of
        (Inl e, w1) \<Rightarrow> (Inl e, w1)
      | (Inr result, w1) \<Rightarrow> (Inr result, close w1))"

text \<open>The connections that a trace leaves open.\<close>

definition open_connections :: "io_event list \<Rightarrow> nat" where
  "open_connections t = length (filter (\<lambda>e. e = Connect) t) - length (filter (\<lambda>e. e = Close) t)"

subsection \<open>The Streamlit script\<close>

text \<open>
  Streamlit runs the script from its first line to its last once per interaction. A run reads
  the state of the widgets, writes elements to the page and works on the store; an exception
  that no \<^verbatim>\<open>except\<close> catches ends the run at the line that raised it.
\<close>

record ui_input =
  ui_option :: string
  ui_month :: int
  ui_button :: bool
  ui_query :: string
  ui_query_name :: string

datatype 'f ui_event =
    Title string
  | Subheader string
  | Success string
  | Dataframe "'f frame"
  | Error_message error
  | Bar_chart "'f frame"
  | Line_chart "'f frame"
  | Pyplot "'f frame"

text \<open>
  The elements a run writes to the page. \<open>Error_message e\<close> is \<^verbatim>\<open>st.error\<close> of the text
  "An error occurred: " followed by the message of the exception \<open>e\<close>; the three charts stand
  for \<^verbatim>\<open>st.bar_chart\<close>, \<^verbatim>\<open>st.line_chart\<close> and the pie chart given to \<^verbatim>\<open>st.pyplot\<close>, each with the
  frame it draws.

  The result of a piece of the script: the exception that ended it if any, the page so far, and
  the world.
\<close>

type_synonym 'f run = "error option \<times> 'f ui_event list \<times> 'f world"

text \<open>Lines 105 to 112.\<close>

definition generate_branch ::
  "'f libs \<Rightarrow> 'f random_source \<Rightarrow> ui_input \<Rightarrow> 'f ui_event list \<Rightarrow> 'f world \<Rightarrow> 'f run"
where
  "generate_branch L src inp page w =
     (let page1 = page @ [Subheader ''Generate Expense Data'']; month = ui_month inp
      in if ui_button inp then
           (case generate_data L src month of
              Inl e \<Rightarrow> (Some e, page1, w)
            | Inr data \<Rightarrow>
                (case load_data_to_db data month w of
                   (Some e, w1) \<Rightarrow> (Some e, page1, w1)
                 | (None, w1) \<Rightarrow>
                     (case month_name month of
                        Inl e \<Rightarrow> (Some e, page1, w1)
                      | Inr name \<Rightarrow>
                          (None,
                           page1 @ [Success (''Data for '' @ name @ '' generated and loaded into the database!''),
                                    Dataframe (Rows (take 5 data))],
                           w1))))
         else (None, page1, w))"

text \<open>Lines 114 to 119.\<close>

definition view_branch :: "'f libs \<Rightarrow> ui_input \<Rightarrow> 'f ui_event list \<Rightarrow> 'f world \<Rightarrow> 'f run" where
  "view_branch L inp page w =
     (let page1 = page @ [Subheader ''View Expense Data'']
      in case month_name (ui_month inp) of
           Inl e \<Rightarrow> (Some e, page1, w)
         | Inr name \<Rightarrow>
             (case query_data L (view_query name) w of
                (Inl e, w1) \<Rightarrow> (Some e, page1, w1)
              | (Inr data, w1) \<Rightarrow> (None, page1 @ [Dataframe data], w1)))"

text \<open>Lines 121 to 131.\<close>

definition visualize_branch :: "'f libs \<Rightarrow> 'f ui_event list \<Rightarrow> 'f world \<Rightarrow> 'f run" where
  "visualize_branch L page w =
     (let page1 = page @ [Subheader ''Spending Insights'']
      in case query_data L visualize_query w of
           (Inl e, w1) \<Rightarrow> (Some e, page1, w1)
         | (Inr data, w1) \<Rightarrow> (None, page1 @ [Bar_chart data, Pyplot data], w1))"

text \<open>Lines 133 to 141: the only \<^verbatim>\<open>try\<close> of the program. The handler shows the exception
  and the run goes on.\<close>

definition run_sql_branch :: "'f libs \<Rightarrow> ui_input \<Rightarrow> 'f ui_event list \<Rightarrow> 'f world \<Rightarrow> 'f run" where
  "run_sql_branch L inp page w =
     (let page1 = page @ [Subheader ''Run Custom SQL Query'']
      in if ui_button inp then
           (case query_data L (ui_query inp) w of
              (Inr data, w1) \<Rightarrow> (None, page1 @ [Dataframe data], w1)
            | (Inl e, w1) \<Rightarrow> (None, page1 @ [Error_message e], w1))
         else (None, page1, w))"

text \<open>Lines 143 to 153.\<close>

definition predefined_branch :: "'f libs \<Rightarrow> ui_input \<Rightarrow> 'f ui_event list \<Rightarrow> 'f world \<Rightarrow> 'f run" where
  "predefined_branch L inp page w =
     (let page1 = page @ [Subheader ''Predefined SQL Queries''];
          query_name = ui_query_name inp
      in case map_of SQL_QUERIES query_name of
           None \<Rightarrow> (Some (KeyError query_name), page1, w)
         | Some query \<Rightarrow>
             if ui_button inp then
               (case query_data L query w of
                  (Inl e, w1) \<Rightarrow> (Some e, page1, w1)
                | (Inr data, w1) \<Rightarrow>
                    (None,
                     page1 @ [Dataframe data]
                       @ (if query_name = ''Spending Trends Over Time'' then [Line_chart data]
                          else if query_name \<in> set [''Total Amount Spent per Category'',
                                                    ''Cash vs Online Transactions'']
                          then [Bar_chart data]
                          else []),
                     w1))
             else (None, page1, w))"

text \<open>One run of the script: the title, the branch of the selected mode, and, as the last
  statement (line 156), the call of \<^verbatim>\<open>init_db\<close>.\<close>

definition script :: "'f libs \<Rightarrow> 'f random_source \<Rightarrow> ui_input \<Rightarrow> 'f world \<Rightarrow> 'f run" where
  "script L src inp w =
     (let page = [Title ''Personal Expense Tracker''];
          option = ui_option inp;
          branch =
            (if option = ''Generate Data'' then generate_branch L src inp page w
             else if option = ''View Data'' then view_branch L inp page w
             else if option = ''Visualize Insights'' then visualize_branch L page w
             else if option = ''Run SQL Query'' then run_sql_branch L inp page w
             else if option = ''Predefined SQL Queries'' then predefined_branch L inp page w
             else (None, page, w))
      in case branch of
           (Some e, page1, w1) \<Rightarrow> (Some e, page1, w1)
         | (None, page1, w1) \<Rightarrow>
             (case init_db w1 of
                (Some e, w2) \<Rightarrow> (Some e, page1, w2)
              | (None, w2) \<Rightarrow> (None, page1, w2)))"

subsection \<open>Concrete inputs\<close>

text \<open>A store without tables and without history, as \<^verbatim>\<open>sqlite3.connect\<close> creates it when
  the file does not exist.\<close>

definition fresh_world :: "'f world" where
  "fresh_world = \<lparr>store = [], trace = []\<rparr>"

text \<open>An instance of the library parameters: a Faker that always returns the start date, a
  pandas that parses nothing but \<^verbatim>\<open>YYYY-MM-DD\<close>, and an SQLite that refuses every text the
  program does not issue itself.\<close>

definition simple_libs :: "'f libs" where
  "simple_libs =
     \<lparr>parse_other = (\<lambda>s. Inl (ValueError s)),
      date_between_dates = (\<lambda>s e r. Inr s),
      sqlite_other = (\<lambda>q. Inl ''syntax error'')\<rparr>"

text \<open>A random source whose draw number \<open>i\<close> is made of \<open>i\<close>; amounts are counted in
  hundredths here.\<close>

definition counting_source :: "nat random_source" where
  "counting_source i =
     \<lparr>r_date = i, r_category = i, r_payment_mode = i, r_description = i,
      r_amount_paid = 1000 + i, r_cashback = i\<rparr>"

text \<open>An expense row for the examples; amounts are counted in hundredths.\<close>

definition example_row :: "nat \<Rightarrow> nat expense" where
  "example_row i =
     \<lparr>Date = \<lparr>date_year = 2024, date_month = 1, date_day = 1 + int i\<rparr>, Category = ''Food'',
      Payment_Mode = ''Cash'', Description = ''Bought groceries'', Amount_Paid = 1000 + i,
      Cashback = i, Month = ''January''\<rparr>"

section \<open>Properties\<close>

subsection \<open>Formatting, parsing and the calendar for the months 1 to 12\<close>

lemma str_nat_one: "n < 10 \<Longrightarrow> str_nat n = [digit_char n]"
  by (simp add: str_nat.simps)

lemma str_nat_two:
  "10 \<le> n \<Longrightarrow> n < 100 \<Longrightarrow> str_nat n = [digit_char (n div 10), digit_char (n mod 10)]"
  by (subst str_nat.simps) (simp add: str_nat_one)

lemma month_cases:
  "1 \<le> (m::int) \<Longrightarrow> m \<le> 12 \<Longrightarrow>
   m = 1 \<or> m = 2 \<or> m = 3 \<or> m = 4 \<or> m = 5 \<or> m = 6 \<or> m = 7 \<or> m = 8 \<or> m = 9 \<or> m = 10
   \<or> m = 11 \<or> m = 12"
  by arith

lemma Timestamp_start:
  assumes "1 \<le> m" "m \<le> 12"
  shows "Timestamp L (''2024-'' @ format_02d m @ ''-01'')
     = Inr \<lparr>date_year = 2024, date_month = m, date_day = 1\<rparr>"
  using month_cases [OF assms]
  by (elim disjE; simp add: Timestamp_def format_02d_def str_nat_one str_nat_two digit_char_def
      iso_fields_def is_digit_def digit_val_def valid_date_def mdays_def isleap_def)

lemma monthrange_2024:
  assumes "1 \<le> m" "m \<le> 12"
  shows "\<exists>day1. monthrange 2024 m = Inr (day1, [31, 29, 31, 30, 31, 30, 31, 31, 30, 31, 30, 31] ! nat (m - 1))"
  using month_cases [OF assms]
  by (elim disjE; simp add: monthrange_def mdays_def isleap_def)

lemma Timestamp_end:
  assumes "1 \<le> m" "m \<le> 12"
  shows "Timestamp L (''2024-'' @ format_02d m @ ''-'' @ str_int ([31, 29, 31, 30, 31, 30, 31, 31, 30, 31, 30, 31] ! nat (m - 1)))
     = Inr \<lparr>date_year = 2024, date_month = m, date_day = [31, 29, 31, 30, 31, 30, 31, 31, 30, 31, 30, 31] ! nat (m - 1)\<rparr>"
  using month_cases [OF assms]
  by (elim disjE; simp add: Timestamp_def format_02d_def str_int_def str_nat_one str_nat_two
      digit_char_def iso_fields_def is_digit_def digit_val_def valid_date_def mdays_def isleap_def)

lemma month_name_in_range:
  assumes "1 \<le> m" "m \<le> 12"
  shows "month_name m = Inr ([''January'', ''February'', ''March'', ''April'', ''May'', ''June'', ''July'',
        ''August'', ''September'', ''October'', ''November'', ''December''] ! nat (m - 1))"
  using month_cases [OF assms]
  by (elim disjE; simp add: month_name_def month_names_def)

lemma first_le_last:
  assumes "1 \<le> m" "m \<le> 12"
  shows "date_le \<lparr>date_year = 2024, date_month = m, date_day = 1\<rparr>
     \<lparr>date_year = 2024, date_month = m, date_day = [31, 29, 31, 30, 31, 30, 31, 31, 30, 31, 30, 31] ! nat (m - 1)\<rparr>"
  using month_cases [OF assms] by (elim disjE; simp add: date_le_def)

lemma choice_nonempty: "seq \<noteq> [] \<Longrightarrow> choice seq r = Inr (seq ! (r mod length seq))"
  by (simp add: choice_def)

subsection \<open>generate\_data\<close>

lemma generate_row_in_month:
  assumes m: "1 \<le> m" "m \<le> 12"
    and faker: "\<forall>s e r. date_le s e \<longrightarrow>
       (\<exists>d. date_between_dates L s e r = Inr d \<and> date_le s d \<and> date_le d e)"
  shows "\<exists>row. generate_row L d m = Inr row \<and> date_le \<lparr>date_year = 2024, date_month = m, date_day = 1\<rparr> (Date row)
      \<and> date_le (Date row) \<lparr>date_year = 2024, date_month = m,
            date_day = [31, 29, 31, 30, 31, 30, 31, 31, 30, 31, 30, 31] ! nat (m - 1)\<rparr>
      \<and> Month row = [''January'', ''February'', ''March'', ''April'', ''May'', ''June'', ''July'',
        ''August'', ''September'', ''October'', ''November'', ''December''] ! nat (m - 1)"
proof -
  obtain day1 where mr: "monthrange 2024 m = Inr (day1, [31, 29, 31, 30, 31, 30, 31, 31, 30, 31, 30, 31] ! nat (m - 1))"
    using monthrange_2024 [OF m] by blast
  obtain dt where dt: "date_between_dates L \<lparr>date_year = 2024, date_month = m, date_day = 1\<rparr>
       \<lparr>date_year = 2024, date_month = m, date_day = [31, 29, 31, 30, 31, 30, 31, 31, 30, 31, 30, 31] ! nat (m - 1)\<rparr> (r_date d) = Inr dt"
     and lo: "date_le \<lparr>date_year = 2024, date_month = m, date_day = 1\<rparr> dt"
     and hi: "date_le dt \<lparr>date_year = 2024, date_month = m, date_day = [31, 29, 31, 30, 31, 30, 31, 31, 30, 31, 30, 31] ! nat (m - 1)\<rparr>"
    using faker first_le_last [OF m] by blast
  have c1: "categories \<noteq> []" and c2: "payment_modes \<noteq> []" and c3: "descriptions \<noteq> []"
    by (simp_all add: categories_def payment_modes_def descriptions_def)
  show ?thesis
    apply (simp only: generate_row_def Timestamp_start [OF m] mr Timestamp_end [OF m]
      choice_nonempty [OF c1] choice_nonempty [OF c2] choice_nonempty [OF c3]
      month_name_in_range [OF m] dt sum.case prod.case)
    apply (simp add: lo hi)
    done
qed

lemma generate_loop_in_month:
  assumes m: "1 \<le> m" "m \<le> 12"
    and faker: "\<forall>s e r. date_le s e \<longrightarrow>
       (\<exists>d. date_between_dates L s e r = Inr d \<and> date_le s d \<and> date_le d e)"
  shows "\<exists>new. generate_loop L src m k i data = Inr (data @ new) \<and> length new = k
           \<and> (\<forall>x \<in> set new. date_le \<lparr>date_year = 2024, date_month = m, date_day = 1\<rparr> (Date x)
      \<and> date_le (Date x) \<lparr>date_year = 2024, date_month = m,
            date_day = [31, 29, 31, 30, 31, 30, 31, 31, 30, 31, 30, 31] ! nat (m - 1)\<rparr>
      \<and> Month x = [''January'', ''February'', ''March'', ''April'', ''May'', ''June'', ''July'',
        ''August'', ''September'', ''October'', ''November'', ''December''] ! nat (m - 1))"
proof (induction k arbitrary: i data)
  case 0
  then show ?case by simp
next
  case (Suc k)
  obtain row where row: "generate_row L (src i) m = Inr row" "date_le \<lparr>date_year = 2024, date_month = m, date_day = 1\<rparr> (Date row)
      \<and> date_le (Date row) \<lparr>date_year = 2024, date_month = m,
            date_day = [31, 29, 31, 30, 31, 30, 31, 31, 30, 31, 30, 31] ! nat (m - 1)\<rparr>
      \<and> Month row = [''January'', ''February'', ''March'', ''April'', ''May'', ''June'', ''July'',
        ''August'', ''September'', ''October'', ''November'', ''December''] ! nat (m - 1)"
    using generate_row_in_month [OF m faker] by blast
  obtain new where new:
      "generate_loop L src m k (Suc i) (data @ [row]) = Inr ((data @ [row]) @ new)"
      "length new = k" "\<forall>x \<in> set new. date_le \<lparr>date_year = 2024, date_month = m, date_day = 1\<rparr> (Date x)
      \<and> date_le (Date x) \<lparr>date_year = 2024, date_month = m,
            date_day = [31, 29, 31, 30, 31, 30, 31, 31, 30, 31, 30, 31] ! nat (m - 1)\<rparr>
      \<and> Month x = [''January'', ''February'', ''March'', ''April'', ''May'', ''June'', ''July'',
        ''August'', ''September'', ''October'', ''November'', ''December''] ! nat (m - 1)"
    using Suc.IH by blast
  show ?case
    by (rule exI [of _ "row # new"]) (simp add: row new)
qed

lemma generate_row_bad_month:
  assumes "month < 1 \<or> 12 < month"
  shows "\<exists>e. generate_row L d month = Inl e
     \<and> (Timestamp L (''2024-'' @ format_02d month @ ''-01'') = Inl e \<or> e = IllegalMonthError month)"
  using assms
  by (cases "Timestamp L (''2024-'' @ format_02d month @ ''-01'')")
     (auto simp: generate_row_def monthrange_def)

lemma generate_data_bad_month:
  assumes "month < 1 \<or> 12 < month"
  shows "\<exists>e. generate_data L src month = Inl e
     \<and> (Timestamp L (''2024-'' @ format_02d month @ ''-01'') = Inl e \<or> e = IllegalMonthError month)"
proof -
  obtain e where "generate_row L (src 0) month = Inl e"
    and "Timestamp L (''2024-'' @ format_02d month @ ''-01'') = Inl e \<or> e = IllegalMonthError month"
    using generate_row_bad_month [OF assms] by blast
  then show ?thesis
    by (simp add: generate_data_def numeral_eq_Suc)
qed

text \<open>
  Claim C1. For every month \<open>m\<close> from 1 to 12, \<^verbatim>\<open>generate_data(m)\<close> returns exactly 100 records;
  the date of each lies between the first and the last day of month \<open>m\<close> of 2024 (the last
  days are written out: February has 29), and the field \<open>Month\<close> of each is the English name of
  month \<open>m\<close>. The date itself is chosen by Faker: the theorem holds for every Faker whose
  \<^verbatim>\<open>date_between_dates\<close> returns a date between the two it is given, for every random
  source, and whatever pandas does with texts that are not dates.
\<close>

theorem generate_data_in_month:
  assumes "1 \<le> m" and "m \<le> 12"
    and "\<forall>s e r. date_le s e \<longrightarrow>
       (\<exists>d. date_between_dates L s e r = Inr d \<and> date_le s d \<and> date_le d e)"
  shows "\<exists>rows. generate_data L src m = Inr rows \<and> length rows = 100
     \<and> (\<forall>x \<in> set rows. date_le \<lparr>date_year = 2024, date_month = m, date_day = 1\<rparr> (Date x)
      \<and> date_le (Date x) \<lparr>date_year = 2024, date_month = m,
            date_day = [31, 29, 31, 30, 31, 30, 31, 31, 30, 31, 30, 31] ! nat (m - 1)\<rparr>
      \<and> Month x = [''January'', ''February'', ''March'', ''April'', ''May'', ''June'', ''July'',
        ''August'', ''September'', ''October'', ''November'', ''December''] ! nat (m - 1))"
  using generate_loop_in_month [OF assms, of src 100 0 "[]"]
  by (simp add: generate_data_def)

theorem generate_data_in_month_witness:
  "\<exists>rows. generate_data simple_libs counting_source 1 = Inr rows \<and> length rows = 100
     \<and> (\<forall>x \<in> set rows.
          date_le \<lparr>date_year = 2024, date_month = 1, date_day = 1\<rparr> (Date x)
          \<and> date_le (Date x) \<lparr>date_year = 2024, date_month = 1, date_day = 31\<rparr>
          \<and> Month x = ''January'')"
  using generate_data_in_month [of 1 simple_libs counting_source]
  by (simp add: simple_libs_def date_le_def)

subsection \<open>Tables: lookup and creation\<close>

lemma sqlite_find_None_iff:
  "sqlite_find dbs n = None \<longleftrightarrow> fold_name n \<notin> set (map (fold_name \<circ> fst) dbs)"
  by (induction dbs) (auto simp: sqlite_find_def)

lemma sqlite_find_append:
  "sqlite_find (dbs @ ys) n =
     (case sqlite_find dbs n of Some x \<Rightarrow> Some x | None \<Rightarrow> sqlite_find ys n)"
  by (induction dbs) (auto simp: sqlite_find_def)

lemma sqlite_find_single: "sqlite_find [(n, t)] n = Some (n, t)"
  by (simp add: sqlite_find_def)

lemma create_found: "sqlite_find (create_table_if_not_exists n dbs) n \<noteq> None"
  by (auto simp: create_table_if_not_exists_def sqlite_find_append sqlite_find_single split: option.splits)

lemma create_keeps:
  "sqlite_find dbs m = Some x \<Longrightarrow> sqlite_find (create_table_if_not_exists n dbs) m = Some x"
  by (auto simp: create_table_if_not_exists_def sqlite_find_append split: option.splits)

lemma create_idem:
  "sqlite_find dbs n \<noteq> None \<Longrightarrow> create_table_if_not_exists n dbs = dbs"
  by (auto simp: create_table_if_not_exists_def split: option.splits)



lemma fold_create_keeps:
  "sqlite_find dbs m = Some x \<Longrightarrow> sqlite_find (fold create_table_if_not_exists ns dbs) m = Some x"
  by (induction ns arbitrary: dbs) (auto simp: create_keeps)

lemma fold_create_found:
  "n \<in> set ns \<Longrightarrow> sqlite_find (fold create_table_if_not_exists ns dbs) n \<noteq> None"
proof (induction ns arbitrary: dbs)
  case Nil
  then show ?case by simp
next
  case (Cons a ns)
  show ?case
  proof (cases "n = a")
    case True
    obtain x where "sqlite_find (create_table_if_not_exists a dbs) a = Some x"
      using create_found [of a dbs] by auto
    then show ?thesis using True by (simp add: fold_create_keeps)
  next
    case False
    then show ?thesis using Cons by simp
  qed
qed

lemma fold_create_idem:
  "\<forall>n \<in> set ns. sqlite_find dbs n \<noteq> None \<Longrightarrow> fold create_table_if_not_exists ns dbs = dbs"
  by (induction ns) (auto simp: create_idem)



subsection \<open>init\_db\<close>

lemma init_tables_run:
  "\<forall>m \<in> set ms. 1 \<le> m \<and> m \<le> 12 \<Longrightarrow>
   init_tables ms w =
     (None, w\<lparr>store := fold create_table_if_not_exists (map (\<lambda>m. month_names ! nat m) ms) (store w),
             trace := trace w @ map (\<lambda>m. Execute (''CREATE TABLE IF NOT EXISTS '' @ month_names ! nat m)) ms\<rparr>)"
proof (induction ms arbitrary: w)
  case Nil
  then show ?case by simp
next
  case (Cons a ms)
  have a: "month_name a = Inr (month_names ! nat a)"
    using Cons.prems by (simp add: month_name_def)
  show ?case
    using Cons by (simp add: a execute_create_def)
qed

lemma init_db_run:
  "init_db w =
     (None, w\<lparr>store := fold create_table_if_not_exists (tl month_names) (store w),
             trace := trace w @ [Connect]
               @ map (\<lambda>n. Execute (''CREATE TABLE IF NOT EXISTS '' @ n)) (tl month_names)
               @ [Commit, Close]\<rparr>)"
proof -
  have "\<forall>m \<in> set [1, 2, 3, 4, 5, 6, 7, 8, 9, 10, 11, 12 :: int]. 1 \<le> m \<and> m \<le> 12"
    by simp
  from init_tables_run [OF this, of "connect w"] show ?thesis
    by (simp add: init_db_def connect_def commit_def close_def month_names_def
        del: init_tables.simps)
qed


subsection \<open>The predefined queries on the month tables\<close>

lemma from_table_queries:
  "map (\<lambda>(label, q). from_table q) SQL_QUERIES =
     [Some ''expenses'', Some ''expenses'', Some ''expenses'', Some ''expenses'', Some ''expenses'',
      Some ''expenses'', Some ''expenses'', Some ''expenses'', Some ''January'', Some ''expenses'',
      Some ''expenses'', Some ''expenses'', Some ''expenses'', Some ''expenses'', Some ''expenses'',
      Some ''expenses'']"
  by (simp add: SQL_QUERIES_def from_table_def sql_words_def)

lemma fold_month_names:
  "map fold_name (tl month_names) =
     [''JANUARY'', ''FEBRUARY'', ''MARCH'', ''APRIL'', ''MAY'', ''JUNE'', ''JULY'', ''AUGUST'',
      ''SEPTEMBER'', ''OCTOBER'', ''NOVEMBER'', ''DECEMBER'']"
  by (simp add: month_names_def fold_name_def to_upper_def)

lemma fold_expenses: "fold_name ''expenses'' = ''EXPENSES''"
  by (simp add: fold_name_def to_upper_def)

lemma no_expenses_table:
  assumes "set (map fst (store w)) = set (tl month_names)"
  shows "sqlite_find (store w) ''expenses'' = None"
proof -
  have "set (map (fold_name \<circ> fst) (store w)) = set (map fold_name (tl month_names))"
    using assms by (metis list.set_map map_map)
  then show ?thesis
    by (simp add: sqlite_find_None_iff fold_month_names fold_expenses del: map_map)
qed

lemma create_names:
  "set (map fst (create_table_if_not_exists n dbs)) \<subseteq> set (map fst dbs) \<union> {n}"
  by (auto simp: create_table_if_not_exists_def split: option.splits)

lemma fold_create_names:
  "set (map fst (fold create_table_if_not_exists ns dbs)) \<subseteq> set (map fst dbs) \<union> set ns"
proof (induction ns arbitrary: dbs)
  case Nil
  then show ?case by simp
next
  case (Cons a ns)
  show ?case
    using Cons [of "create_table_if_not_exists a dbs"] create_names [of a dbs] by auto
qed

lemma month_names_not_expenses:
  "k \<in> set (tl month_names) \<Longrightarrow> fold_name k \<noteq> fold_name ''expenses''"
proof -
  assume "k \<in> set (tl month_names)"
  then have "fold_name k \<in> set (map fold_name (tl month_names))"
    by simp
  then show ?thesis
    by (simp only: fold_month_names fold_expenses) auto
qed

lemma init_db_never_creates_expenses:
  assumes "sqlite_find (store w) ''expenses'' = None"
  shows "sqlite_find (store (snd (init_db w))) ''expenses'' = None"
proof -
  let ?s = "fold create_table_if_not_exists (tl month_names) (store w)"
  have "fold_name ''expenses'' \<notin> set (map (fold_name \<circ> fst) (store w))"
    using assms by (simp only: sqlite_find_None_iff not_False_eq_True)
  then have old: "\<forall>k \<in> set (map fst (store w)). fold_name k \<noteq> fold_name ''expenses''"
    by force
  have "\<forall>k \<in> set (map fst ?s). fold_name k \<noteq> fold_name ''expenses''"
  proof
    fix k assume "k \<in> set (map fst ?s)"
    then have "k \<in> set (map fst (store w)) \<or> k \<in> set (tl month_names)"
      using fold_create_names [of "tl month_names" "store w"] by blast
    then show "fold_name k \<noteq> fold_name ''expenses''"
      using old month_names_not_expenses by blast
  qed
  then have "fold_name ''expenses'' \<notin> set (map (fold_name \<circ> fst) ?s)"
    by force
  then have "sqlite_find ?s ''expenses'' = None"
    by (simp only: sqlite_find_None_iff not_False_eq_True)
  then show ?thesis
    by (simp add: init_db_run)
qed

lemma query_data_interpreted:
  assumes "interpreted q" and "from_table q = Some t"
  shows "query_data L q w =
     (case sqlite_find (store w) t of
        None \<Rightarrow> (Inl (DatabaseError (''no such table: '' @ t)),
                  w\<lparr>trace := trace w @ [Connect, Read_sql_query q]\<rparr>)
      | Some (k, rows) \<Rightarrow>
          (Inr (if sql_words q = [''SELECT'', ''*'', ''FROM'', t] then Rows rows else Computed q rows),
           w\<lparr>trace := trace w @ [Connect, Read_sql_query q, Close]\<rparr>))"
  using assms
  by (simp add: query_data_def read_sql_query_def sqlite_prepare_def run_select_def connect_def
      close_def split: option.splits)


lemma catalog_interpreted: "(label, q) \<in> set SQL_QUERIES \<Longrightarrow> interpreted q"
  by (force simp: interpreted_def)

lemma cash_vs_online:
  "map_of SQL_QUERIES ''Cash vs Online Transactions'' =
     Some ''SELECT Payment_Mode, COUNT(*) AS Transaction_Count, SUM(Amount_Paid) AS Total_Spent FROM expenses GROUP BY Payment_Mode''"
  by (simp add: SQL_QUERIES_def)


lemma missing_expenses_table_error:
  assumes "set (map fst (store w)) = set (tl month_names)"
    and "(label, q) \<in> set SQL_QUERIES" and "from_table q = Some ''expenses''"
  shows "query_data L q w =
     (Inl (DatabaseError ''no such table: expenses''),
      w\<lparr>trace := trace w @ [Connect, Read_sql_query q]\<rparr>)"
  by (simp add: query_data_interpreted [OF catalog_interpreted [OF assms(2)] assms(3)]
      no_expenses_table [OF assms(1)])

lemma count_expenses_queries:
  "length (filter (\<lambda>(label, q). from_table q = Some ''expenses'') SQL_QUERIES) = 15"
proof -
  have "length (filter (\<lambda>(label, q). from_table q = Some ''expenses'') SQL_QUERIES)
      = length (filter (\<lambda>t. t = Some ''expenses'') (map (\<lambda>(label, q). from_table q) SQL_QUERIES))"
    by (simp add: filter_map comp_def case_prod_unfold)
  then show ?thesis
    by (simp only: from_table_queries) simp
qed

text \<open>
  Claim C2. On a store whose tables are exactly the twelve month tables, the predefined query
  "Cash vs Online Transactions" fails with pandas' \<^verbatim>\<open>DatabaseError\<close> for SQLite's "no such
  table: expenses", and so does every entry of the catalog that reads the table
  \<^verbatim>\<open>expenses\<close>; these are 15 of the 16 entries. \<^verbatim>\<open>init_db\<close> never creates that table: on a
  store in which the name \<^verbatim>\<open>expenses\<close> resolves to no table, it resolves to none after
  \<^verbatim>\<open>init_db\<close> either. The store that \<^verbatim>\<open>init_db\<close> makes of an empty file has exactly the twelve
  month tables.
\<close>

theorem expenses_queries_fail:
  assumes "set (map fst (store w)) = set (tl month_names)"
  shows "(\<exists>q. map_of SQL_QUERIES ''Cash vs Online Transactions'' = Some q
            \<and> from_table q = Some ''expenses''
            \<and> fst (query_data L q w) = Inl (DatabaseError ''no such table: expenses''))
     \<and> (\<forall>(label, q) \<in> set SQL_QUERIES. from_table q = Some ''expenses'' \<longrightarrow>
            fst (query_data L q w) = Inl (DatabaseError ''no such table: expenses''))
     \<and> length (filter (\<lambda>(label, q). from_table q = Some ''expenses'') SQL_QUERIES) = 15
     \<and> (sqlite_find (store w0) ''expenses'' = None \<longrightarrow>
          sqlite_find (store (snd (init_db w0))) ''expenses'' = None)"
proof (intro conjI)
  let ?q = "''SELECT Payment_Mode, COUNT(*) AS Transaction_Count, SUM(Amount_Paid) AS Total_Spent FROM expenses GROUP BY Payment_Mode''"
  have mem: "(''Cash vs Online Transactions'', ?q) \<in> set SQL_QUERIES"
    using cash_vs_online by (rule map_of_SomeD)
  have ft: "from_table ?q = Some ''expenses''"
    by (simp add: from_table_def sql_words_def)
  show "\<exists>q. map_of SQL_QUERIES ''Cash vs Online Transactions'' = Some q
            \<and> from_table q = Some ''expenses''
            \<and> fst (query_data L q w) = Inl (DatabaseError ''no such table: expenses'')"
    using cash_vs_online ft missing_expenses_table_error [OF assms mem ft, of L] by simp
  show "\<forall>(label, q) \<in> set SQL_QUERIES. from_table q = Some ''expenses'' \<longrightarrow>
            fst (query_data L q w) = Inl (DatabaseError ''no such table: expenses'')"
    using missing_expenses_table_error [OF assms] by (auto simp del: map_map)
  show "length (filter (\<lambda>(label, q). from_table q = Some ''expenses'') SQL_QUERIES) = 15"
    by (rule count_expenses_queries)
  show "sqlite_find (store w0) ''expenses'' = None \<longrightarrow>
          sqlite_find (store (snd (init_db w0))) ''expenses'' = None"
    using init_db_never_creates_expenses by blast
qed

lemma init_db_fresh:
  "init_db fresh_world =
     (None, \<lparr>store = map (\<lambda>n. (n, [])) (tl month_names),
             trace = [Connect] @ map (\<lambda>n. Execute (''CREATE TABLE IF NOT EXISTS '' @ n)) (tl month_names)
               @ [Commit, Close]\<rparr>)"
  by (simp add: init_db_run fresh_world_def month_names_def create_table_if_not_exists_def
      sqlite_find_def fold_name_def to_upper_def)

theorem expenses_queries_fail_witness:
  "\<exists>q. map_of SQL_QUERIES ''Cash vs Online Transactions'' = Some q
       \<and> from_table q = Some ''expenses''
       \<and> fst (query_data simple_libs q (snd (init_db fresh_world)))
           = Inl (DatabaseError ''no such table: expenses'')"
proof -
  have only_months: "set (map fst (store (snd (init_db fresh_world)))) = set (tl month_names)"
    by (simp add: init_db_fresh comp_def)
  from expenses_queries_fail [OF only_months, of simple_libs] show ?thesis
    by blast
qed





subsection \<open>load\_data\_to\_db and the view query\<close>

lemma insert_rows_names: "map fst (insert_rows n rows dbs) = map fst dbs"
  by (induction dbs) auto

lemma insert_rows_find_same:
  "sqlite_find dbs n = Some (k, t) \<Longrightarrow> sqlite_find (insert_rows n rows dbs) n = Some (k, t @ rows)"
  by (induction dbs) (auto simp: sqlite_find_def split: if_splits)

lemma insert_rows_find_other:
  "fold_name m \<noteq> fold_name n \<Longrightarrow> sqlite_find (insert_rows n rows dbs) m = sqlite_find dbs m"
  by (induction dbs) (auto simp: sqlite_find_def)

lemma has_table_found: "has_table dbs n \<Longrightarrow> \<exists>k t. sqlite_find dbs n = Some (k, t)"
proof -
  assume "has_table dbs n"
  then have "fold_name n \<in> set (map (fold_name \<circ> fst) dbs)"
    by (auto simp: has_table_def)
  then have "sqlite_find dbs n \<noteq> None"
    by (simp only: sqlite_find_None_iff not_not)
  then show ?thesis by auto
qed

lemma month_name_nth: "1 \<le> m \<Longrightarrow> m \<le> 12 \<Longrightarrow> month_name m = Inr (month_names ! nat m)"
  by (simp add: month_name_def)

lemma month_names_nth_mem:
  "1 \<le> m \<Longrightarrow> m \<le> 12 \<Longrightarrow> month_names ! nat m \<in> set (tl month_names)"
  using month_cases [of m] by (auto simp: month_names_def)

lemma fold_month_names_inj:
  assumes "1 \<le> m" "m \<le> 12" "1 \<le> m'" "m' \<le> 12"
    and "fold_name (month_names ! nat m) = fold_name (month_names ! nat m')"
  shows "m = m'"
proof -
  have d: "distinct (map fold_name month_names)"
    by (simp add: month_names_def fold_name_def to_upper_def)
  have len: "length (map fold_name month_names) = 13"
    by (simp add: month_names_def)
  have lenm: "length month_names = 13"
    by (simp add: month_names_def)
  have i: "nat m < length (map fold_name month_names)"
    and j: "nat m' < length (map fold_name month_names)"
    using assms lenm by simp_all
  have "(map fold_name month_names ! nat m = map fold_name month_names ! nat m') = (nat m = nat m')"
    by (rule nth_eq_iff_index_eq [OF d i j])
  moreover have "map fold_name month_names ! nat m = map fold_name month_names ! nat m'"
    using assms lenm by simp
  ultimately have "nat m = nat m'"
    by blast
  then show ?thesis using assms by simp
qed

lemma load_existing:
  assumes "1 \<le> month" "month \<le> 12" "has_table (store w) (month_names ! nat month)"
  shows "load_data_to_db data month w =
     (None, w\<lparr>store := insert_rows (month_names ! nat month) data (store w),
             trace := trace w @ [Connect, To_sql (month_names ! nat month) (length data), Close]\<rparr>)"
  using assms
  by (simp add: load_data_to_db_def month_name_nth to_sql_def connect_def close_def)

lemma view_query_words:
  "name \<in> set (tl month_names) \<Longrightarrow> sql_words (view_query name) = [''SELECT'', ''*'', ''FROM'', name]"
  by (auto simp: month_names_def view_query_def sql_words_def)

lemma view_query_from:
  "name \<in> set (tl month_names) \<Longrightarrow> from_table (view_query name) = Some name"
  by (simp add: from_table_def view_query_words)

lemma view_query_interpreted:
  "name \<in> set (tl month_names) \<Longrightarrow> interpreted (view_query name)"
  by (simp add: interpreted_def)

lemma view_existing:
  assumes "name \<in> set (tl month_names)" and "sqlite_find (store w) name = Some (k, rows)"
  shows "query_data L (view_query name) w =
     (Inr (Rows rows), w\<lparr>trace := trace w @ [Connect, Read_sql_query (view_query name), Close]\<rparr>)"
  by (simp add: query_data_interpreted [OF view_query_interpreted [OF assms(1)] view_query_from [OF assms(1)]]
      assms(2) view_query_words [OF assms(1)])

lemma ingest_all:
  assumes m: "1 \<le> m" "m \<le> 12"
  shows "\<forall>(data, month) \<in> set batches. 1 \<le> month \<and> month \<le> 12 \<Longrightarrow>
     \<forall>name \<in> set (tl month_names). has_table (store w) name \<Longrightarrow>
     sqlite_find (store w) (month_names ! nat m) = Some (k, old) \<Longrightarrow>
     \<exists>w'. fold (\<lambda>(data, month) (rs, w'). (rs @ [fst (load_data_to_db data month w')],
                                         snd (load_data_to_db data month w'))) batches (rs, w)
            = (rs @ replicate (length batches) None, w')
        \<and> (\<forall>name \<in> set (tl month_names). has_table (store w') name)
        \<and> sqlite_find (store w') (month_names ! nat m)
            = Some (k, old @ concat (map fst (filter (\<lambda>(data, month). month = m) batches)))"
proof (induction batches arbitrary: rs w old)
  case Nil
  then show ?case by simp
next
  case (Cons b batches)
  obtain data month where b: "b = (data, month)" by (cases b)
  have month: "1 \<le> month" "month \<le> 12"
    using Cons.prems(1) b by auto
  have ex: "has_table (store w) (month_names ! nat month)"
    using Cons.prems(2) month_names_nth_mem [OF month] by blast
  let ?w1 = "w\<lparr>store := insert_rows (month_names ! nat month) data (store w),
             trace := trace w @ [Connect, To_sql (month_names ! nat month) (length data), Close]\<rparr>"
  have load: "load_data_to_db data month w = (None, ?w1)"
    by (rule load_existing [OF month ex])
  have tables1: "\<forall>name \<in> set (tl month_names). has_table (store ?w1) name"
    using Cons.prems(2) by (simp add: has_table_def insert_rows_names)
  have find1: "sqlite_find (store ?w1) (month_names ! nat m)
      = Some (k, old @ (if month = m then data else []))"
  proof (cases "month = m")
    case True
    then show ?thesis using Cons.prems(3) by (simp add: insert_rows_find_same)
  next
    case False
    then have "fold_name (month_names ! nat m) \<noteq> fold_name (month_names ! nat month)"
      using fold_month_names_inj [OF m month] by blast
    then show ?thesis using Cons.prems(3) False by (simp add: insert_rows_find_other)
  qed
  have rest: "\<forall>(data, month) \<in> set batches. 1 \<le> month \<and> month \<le> 12"
    using Cons.prems(1) by simp
  obtain w' where w': "fold (\<lambda>(data, month) (rs, w'). (rs @ [fst (load_data_to_db data month w')],
                                         snd (load_data_to_db data month w'))) batches (rs @ [None], ?w1)
            = ((rs @ [None]) @ replicate (length batches) None, w')"
      "\<forall>name \<in> set (tl month_names). has_table (store w') name"
      "sqlite_find (store w') (month_names ! nat m)
            = Some (k, (old @ (if month = m then data else []))
                 @ concat (map fst (filter (\<lambda>(data, month). month = m) batches)))"
    using Cons.IH [OF rest tables1 find1, of "rs @ [None]"] by blast
  show ?case
    apply (rule exI [of _ w'])
    using w' by (simp add: b load replicate_app_Cons_same)
qed

text \<open>
  Claim C5. Take a store in which the twelve month tables exist, a month \<open>m\<close> from 1 to 12 whose
  table holds the rows \<open>old\<close>, and any list of batches, each for a month from 1 to 12. Loading
  the batches one after the other with \<^verbatim>\<open>load_data_to_db\<close> raises no exception, and the view
  query on \<open>m\<close> then returns the rows \<open>old\<close> followed by the rows of the batches for \<open>m\<close>, in
  the order of loading: nothing is removed, replaced or merged, and the row count is the
  count before plus the sizes of the batches for \<open>m\<close>.
\<close>

theorem ingestion_is_additive:
  assumes "1 \<le> m" and "m \<le> 12"
    and "\<forall>name \<in> set (tl month_names). has_table (store w) name"
    and "\<forall>(data, month) \<in> set batches. 1 \<le> month \<and> month \<le> 12"
  shows "\<exists>name k old w'.
       month_name m = Inr name
     \<and> fst (query_data L (view_query name) w) = Inr (Rows old)
     \<and> fold (\<lambda>(data, month) (rs, w'). (rs @ [fst (load_data_to_db data month w')],
                                        snd (load_data_to_db data month w'))) batches ([], w)
         = (replicate (length batches) None, w')
     \<and> fst (query_data L (view_query name) w')
         = Inr (Rows (old @ concat (map fst (filter (\<lambda>(data, month). month = m) batches))))
     \<and> length (old @ concat (map fst (filter (\<lambda>(data, month). month = m) batches)))
         = length old + sum_list (map (\<lambda>(data, month). length data)
                                    (filter (\<lambda>(data, month). month = m) batches))"
proof -
  let ?name = "month_names ! nat m"
  have mem: "?name \<in> set (tl month_names)"
    by (rule month_names_nth_mem [OF assms(1,2)])
  obtain k old where old: "sqlite_find (store w) ?name = Some (k, old)"
    using has_table_found assms(3) mem by blast
  obtain w' where w':
      "fold (\<lambda>(data, month) (rs, w'). (rs @ [fst (load_data_to_db data month w')],
                                        snd (load_data_to_db data month w'))) batches ([], w)
         = ([] @ replicate (length batches) None, w')"
      "sqlite_find (store w') ?name
         = Some (k, old @ concat (map fst (filter (\<lambda>(data, month). month = m) batches)))"
    using ingest_all [OF assms(1,2) assms(4) assms(3) old, of "[]"] by blast
  have len: "length (concat (map fst (filter (\<lambda>(data, month). month = m) batches)))
      = sum_list (map (\<lambda>(data, month). length data) (filter (\<lambda>(data, month). month = m) batches))"
    by (induction batches) (auto simp: length_concat)
  have "month_name m = Inr ?name
     \<and> fst (query_data L (view_query ?name) w) = Inr (Rows old)
     \<and> fold (\<lambda>(data, month) (rs, w'). (rs @ [fst (load_data_to_db data month w')],
                                        snd (load_data_to_db data month w'))) batches ([], w)
         = (replicate (length batches) None, w')
     \<and> fst (query_data L (view_query ?name) w')
         = Inr (Rows (old @ concat (map fst (filter (\<lambda>(data, month). month = m) batches))))
     \<and> length (old @ concat (map fst (filter (\<lambda>(data, month). month = m) batches)))
         = length old + sum_list (map (\<lambda>(data, month). length data)
                                    (filter (\<lambda>(data, month). month = m) batches))"
    using w' len
    by (simp add: month_name_nth [OF assms(1,2)] view_existing [OF mem old] view_existing [OF mem w'(2)])
  then show ?thesis
    by blast
qed

theorem ingestion_is_additive_witness:
  "\<exists>name k old w'.
       month_name (1 :: int) = Inr name
     \<and> fst (query_data simple_libs (view_query name) (snd (init_db (fresh_world :: nat world)))) = Inr (Rows old)
     \<and> fold (\<lambda>(data, month) (rs, w'). (rs @ [fst (load_data_to_db data month w')],
                                        snd (load_data_to_db data month w')))
          [([example_row 0, example_row 1], 1 :: int), ([example_row 2], 2), ([example_row 3], 1)]
          ([], snd (init_db fresh_world))
         = (replicate (length [([example_row 0, example_row 1], 1 :: int), ([example_row 2], 2),
                               ([example_row 3], 1)]) None, w')
     \<and> fst (query_data simple_libs (view_query name) w')
         = Inr (Rows (old @ concat (map fst (filter (\<lambda>(data, month). month = 1)
              [([example_row 0, example_row 1], 1 :: int), ([example_row 2], 2), ([example_row 3], 1)]))))
     \<and> length (old @ concat (map fst (filter (\<lambda>(data, month). month = 1)
              [([example_row 0, example_row 1], 1 :: int), ([example_row 2], 2), ([example_row 3], 1)])))
         = length old + sum_list (map (\<lambda>(data, month). length data)
             (filter (\<lambda>(data, month). month = 1)
               [([example_row 0, example_row 1], 1 :: int), ([example_row 2], 2), ([example_row 3], 1)]))"
proof -
  have tables: "\<forall>name \<in> set (tl month_names). has_table (store (snd (init_db (fresh_world :: nat world)))) name"
    by (simp add: init_db_fresh has_table_def comp_def)
  have months: "\<forall>(data, month) \<in> set [([example_row 0, example_row 1], 1 :: int),
      ([example_row 2], 2), ([example_row 3], 1)]. 1 \<le> month \<and> month \<le> 12"
    by simp
  have lo: "(1 :: int) \<le> 1" and hi: "(1 :: int) \<le> 12"
    by simp_all
  show ?thesis
    by (rule ingestion_is_additive [OF lo hi tables months])
qed

subsection \<open>The script\<close>

text \<open>
  Claim C6. Let SQLite refuse to compile the text \<open>q\<close>, as it does for a text that is not
  well-formed SQL. When the user executes \<open>q\<close> in the mode "Run SQL Query", the handler shows
  the exception on the page, the branch leaves the store as it was, and the run of the script
  goes on to its last statement and ends without an exception. That last statement is
  \<^verbatim>\<open>init_db\<close>: the store at the end of the run is the one \<^verbatim>\<open>init_db\<close> makes of the given
  store, which is the given store when the twelve month tables exist.
\<close>

theorem invalid_sql_is_reported:
  assumes "sqlite_prepare L q = Inl msg"
    and "ui_option inp = ''Run SQL Query''" and "ui_button inp" and "ui_query inp = q"
  shows "run_sql_branch L inp page w =
       (None, page @ [Subheader ''Run Custom SQL Query'', Error_message (DatabaseError msg)],
        w\<lparr>trace := trace w @ [Connect, Read_sql_query q]\<rparr>)
     \<and> (\<exists>w'. script L src inp w =
              (None, [Title ''Personal Expense Tracker'', Subheader ''Run Custom SQL Query'',
                      Error_message (DatabaseError msg)], w')
           \<and> store w' = store (snd (init_db w))
           \<and> ((\<forall>name \<in> set (tl month_names). sqlite_find (store w) name \<noteq> None)
                \<longrightarrow> store w' = store w))"
proof -
  have query: "query_data L q w = (Inl (DatabaseError msg), w\<lparr>trace := trace w @ [Connect, Read_sql_query q]\<rparr>)"
    using assms(1) by (simp add: query_data_def read_sql_query_def connect_def)
  have branch: "run_sql_branch L inp page w =
       (None, page @ [Subheader ''Run Custom SQL Query'', Error_message (DatabaseError msg)],
        w\<lparr>trace := trace w @ [Connect, Read_sql_query q]\<rparr>)" for page
    by (simp add: run_sql_branch_def assms(3) assms(4) query)
  have opt: "script L src inp w =
      (case run_sql_branch L inp [Title ''Personal Expense Tracker''] w of
         (Some e, page1, w1) \<Rightarrow> (Some e, page1, w1)
       | (None, page1, w1) \<Rightarrow>
           (case init_db w1 of
              (Some e, w2) \<Rightarrow> (Some e, page1, w2)
            | (None, w2) \<Rightarrow> (None, page1, w2)))"
    by (simp add: script_def assms(2))
  have same: "fold create_table_if_not_exists (tl month_names) (store w) = store w"
    if "\<forall>name \<in> set (tl month_names). sqlite_find (store w) name \<noteq> None"
    using that by (rule fold_create_idem)
  show ?thesis
    using same by (simp add: opt branch init_db_run)
qed

theorem invalid_sql_is_reported_witness:
  "\<exists>w'. script simple_libs counting_source
       \<lparr>ui_option = ''Run SQL Query'', ui_month = 1, ui_button = True,
        ui_query = ''SELEC * FROM January'', ui_query_name = ''Top 5 Highest Expenses''\<rparr>
       (snd (init_db fresh_world)) =
       (None, [Title ''Personal Expense Tracker'', Subheader ''Run Custom SQL Query'',
               Error_message (DatabaseError ''syntax error'')], w')
     \<and> store w' = store (snd (init_db (fresh_world :: nat world)))"
proof -
  let ?inp = "\<lparr>ui_option = ''Run SQL Query'', ui_month = 1, ui_button = True,
        ui_query = ''SELEC * FROM January'', ui_query_name = ''Top 5 Highest Expenses''\<rparr>"
  have refused: "sqlite_prepare simple_libs ''SELEC * FROM January'' = Inl ''syntax error''"
    by (simp add: sqlite_prepare_def interpreted_def SQL_QUERIES_def visualize_query_def
        view_query_def month_names_def simple_libs_def)
  have tables: "\<forall>name \<in> set (tl month_names).
      sqlite_find (store (snd (init_db (fresh_world :: nat world)))) name \<noteq> None"
    using fold_create_found [of _ "tl month_names" "store (fresh_world :: nat world)"]
    by (simp add: init_db_run)
  have a: "ui_option ?inp = ''Run SQL Query''" and b: "ui_button ?inp"
    and c: "ui_query ?inp = ''SELEC * FROM January''"
    by simp_all
  from invalid_sql_is_reported [OF refused a b c, of "[]" "snd (init_db fresh_world)" counting_source]
    tables
  show ?thesis
    by blast
qed


text \<open>
  Claim C9, as amended. \<^verbatim>\<open>query_data\<close> and \<^verbatim>\<open>load_data_to_db\<close> each open one connection and
  make one call that reads or writes; they close the connection when that call returns, and
  they do not close it when the call raises (then the exception leaves the function before
  \<^verbatim>\<open>conn.close()\<close>). The claim as written, that the connection is closed also when the query
  raises, is refuted by the theorem that follows this one: after a predefined query has failed
  on the freshly initialised store, one connection is open.
\<close>

theorem connection_closed_on_success_only:
  "trace (snd (query_data L q w)) =
     trace w @ [Connect, Read_sql_query q] @ (if isl (fst (query_data L q w)) then [] else [Close])
   \<and> trace (snd (load_data_to_db data month w)) =
     trace w @ [Connect]
       @ (case month_name month of Inl e \<Rightarrow> [] | Inr name \<Rightarrow> [To_sql name (length data)])
       @ (if fst (load_data_to_db data month w) = None then [Close] else [])
   \<and> open_connections
       ([Connect, Read_sql_query q] @ (if isl (fst (query_data L q w)) then [] else [Close]))
     = (if isl (fst (query_data L q w)) then 1 else 0)"
proof (intro conjI)
  show "trace (snd (query_data L q w)) =
     trace w @ [Connect, Read_sql_query q] @ (if isl (fst (query_data L q w)) then [] else [Close])"
    by (cases "sqlite_prepare L q")
       (auto simp: query_data_def read_sql_query_def connect_def close_def
             split: prod.splits sum.splits)
  show "trace (snd (load_data_to_db data month w)) =
     trace w @ [Connect]
       @ (case month_name month of Inl e \<Rightarrow> [] | Inr name \<Rightarrow> [To_sql name (length data)])
       @ (if fst (load_data_to_db data month w) = None then [Close] else [])"
    by (cases "month_name month")
       (auto simp: load_data_to_db_def to_sql_def connect_def close_def Let_def)
  show "open_connections
       ([Connect, Read_sql_query q] @ (if isl (fst (query_data L q w)) then [] else [Close]))
     = (if isl (fst (query_data L q w)) then 1 else 0)"
    by (simp add: open_connections_def)
qed

theorem connection_left_open_counterexample:
  "fst (query_data simple_libs ''SELECT * FROM expenses ORDER BY Amount_Paid DESC LIMIT 5''
          (snd (init_db (fresh_world :: nat world))))
     = Inl (DatabaseError ''no such table: expenses'')
   \<and> trace (snd (query_data simple_libs ''SELECT * FROM expenses ORDER BY Amount_Paid DESC LIMIT 5''
          (snd (init_db (fresh_world :: nat world)))))
     = trace (snd (init_db (fresh_world :: nat world)))
         @ [Connect, Read_sql_query ''SELECT * FROM expenses ORDER BY Amount_Paid DESC LIMIT 5'']
   \<and> open_connections (trace (snd (init_db (fresh_world :: nat world)))) = 0
   \<and> open_connections
        (trace (snd (query_data simple_libs ''SELECT * FROM expenses ORDER BY Amount_Paid DESC LIMIT 5''
          (snd (init_db (fresh_world :: nat world)))))) = 1"
proof -
  let ?q = "''SELECT * FROM expenses ORDER BY Amount_Paid DESC LIMIT 5''"
  have "map_of SQL_QUERIES ''Top 5 Highest Expenses'' = Some ?q"
    by (simp add: SQL_QUERIES_def)
  then have mem: "(''Top 5 Highest Expenses'', ?q) \<in> set SQL_QUERIES"
    by (rule map_of_SomeD)
  have ft: "from_table ?q = Some ''expenses''"
    by (simp add: from_table_def sql_words_def)
  have only_months: "set (map fst (store (snd (init_db (fresh_world :: nat world))))) = set (tl month_names)"
    by (simp add: init_db_fresh comp_def)
  let ?w = "snd (init_db (fresh_world :: nat world))"
  have run: "query_data simple_libs ?q ?w =
     (Inl (DatabaseError ''no such table: expenses''),
      ?w\<lparr>trace := trace ?w @ [Connect, Read_sql_query ?q]\<rparr>)"
    by (rule missing_expenses_table_error [OF only_months mem ft])
  show ?thesis
    by (simp add: run) (simp add: init_db_fresh open_connections_def month_names_def)
qed

text \<open>
  Claim C10. For every month number below 1 or above 12, \<^verbatim>\<open>generate_data\<close> raises in its first
  iteration, while it builds the date range: either \<^verbatim>\<open>pd.Timestamp\<close> raises on the text of
  the first day, or \<^verbatim>\<open>calendar.monthrange\<close> raises \<^verbatim>\<open>IllegalMonthError\<close>. No frame is returned;
  in the mode "Generate Data" the run ends with that exception, and the store and the
  connections are as they were.
\<close>

theorem generate_data_rejects_bad_month:
  assumes "month < 1 \<or> 12 < month"
    and "ui_option inp = ''Generate Data''" and "ui_button inp" and "ui_month inp = month"
  shows "\<exists>e. generate_data L src month = Inl e
     \<and> (Timestamp L (''2024-'' @ format_02d month @ ''-01'') = Inl e \<or> e = IllegalMonthError month)
     \<and> generate_branch L src inp page w = (Some e, page @ [Subheader ''Generate Expense Data''], w)
     \<and> script L src inp w =
         (Some e, [Title ''Personal Expense Tracker'', Subheader ''Generate Expense Data''], w)"
proof -
  obtain e where e: "generate_data L src month = Inl e"
    "Timestamp L (''2024-'' @ format_02d month @ ''-01'') = Inl e \<or> e = IllegalMonthError month"
    using generate_data_bad_month [OF assms(1)] by blast
  have branch: "generate_branch L src inp page w = (Some e, page @ [Subheader ''Generate Expense Data''], w)"
    for page
    by (simp add: generate_branch_def assms(3) assms(4) e(1))
  have run: "script L src inp w =
         (Some e, [Title ''Personal Expense Tracker'', Subheader ''Generate Expense Data''], w)"
    by (simp add: script_def assms(2) branch)
  show ?thesis
    using e branch run by blast
qed

theorem generate_data_rejects_bad_month_witness:
  "\<exists>e. generate_data (simple_libs :: nat libs) counting_source 13 = Inl e
     \<and> (Timestamp (simple_libs :: nat libs) (''2024-'' @ format_02d 13 @ ''-01'') = Inl e \<or> e = IllegalMonthError 13)
     \<and> generate_branch simple_libs counting_source
         \<lparr>ui_option = ''Generate Data'', ui_month = 13, ui_button = True, ui_query = [],
          ui_query_name = ''Top 5 Highest Expenses''\<rparr> [] fresh_world =
         (Some e, [] @ [Subheader ''Generate Expense Data''], fresh_world)
     \<and> script simple_libs counting_source
         \<lparr>ui_option = ''Generate Data'', ui_month = 13, ui_button = True, ui_query = [],
          ui_query_name = ''Top 5 Highest Expenses''\<rparr> fresh_world =
         (Some e, [Title ''Personal Expense Tracker'', Subheader ''Generate Expense Data''], fresh_world)"
proof -
  let ?inp = "\<lparr>ui_option = ''Generate Data'', ui_month = 13, ui_button = True, ui_query = [],
          ui_query_name = ''Top 5 Highest Expenses''\<rparr>"
  have bad: "(13 :: int) < 1 \<or> 12 < (13 :: int)"
    by simp
  have a: "ui_option ?inp = ''Generate Data''" and b: "ui_button ?inp" and c: "ui_month ?inp = 13"
    by simp_all
  show ?thesis
    by (rule generate_data_rejects_bad_month [OF bad a b c])
qed

end
